theory Spec2Isabelle
  imports Complex_Main
begin

section \<open>The arithmetic of \<^verbatim>\<open>double\<close>\<close>

text \<open>
  \<^verbatim>\<open>hmmloglikelihood.cpp\<close> computes with C++ \<^verbatim>\<open>double\<close>. A \<^verbatim>\<open>double\<close> is
  modelled as an exact real number or one of the three IEEE 754 special values: the two
  infinities and NaN. The special values follow IEEE 754 (\<open>0 / 0\<close> and \<open>\<infinity> - \<infinity>\<close> and
  \<open>0 * \<infinity>\<close> are NaN, NaN is absorbing, every comparison with NaN is false,
  \<open>log 0 = -\<infinity>\<close>). Rounding, overflow and underflow of finite values are not modelled:
  finite results are the exact real results. Zero is unsigned and divides as \<open>+0\<close>.

  The theorems below are about the control structure of the function, the terms it adds
  and multiplies in the order of the source, and the propagation of the special values.
  A property that depends on how finite results round (a tolerance on a sum, the equality
  of two results computed in different orders) is outside this model.
\<close>

datatype double = Fin real | PInf | MInf | NaN

instantiation double :: "{zero,one,plus,uminus,minus,times,inverse,ord}"
begin

definition zero_double :: double where
  "zero_double = Fin 0"

definition one_double :: double where
  "one_double = Fin 1"

fun plus_double :: "double \<Rightarrow> double \<Rightarrow> double" where
  "plus_double NaN y = NaN"
| "plus_double x NaN = NaN"
| "plus_double (Fin a) (Fin b) = Fin (a + b)"
| "plus_double (Fin a) y = y"
| "plus_double x (Fin b) = x"
| "plus_double PInf PInf = PInf"
| "plus_double MInf MInf = MInf"
| "plus_double PInf MInf = NaN"
| "plus_double MInf PInf = NaN"

fun uminus_double :: "double \<Rightarrow> double" where
  "uminus_double (Fin a) = Fin (- a)"
| "uminus_double PInf = MInf"
| "uminus_double MInf = PInf"
| "uminus_double NaN = NaN"

definition minus_double :: "double \<Rightarrow> double \<Rightarrow> double" where
  "minus_double x y = x + (- y)"

fun times_double :: "double \<Rightarrow> double \<Rightarrow> double" where
  "times_double NaN y = NaN"
| "times_double x NaN = NaN"
| "times_double (Fin a) (Fin b) = Fin (a * b)"
| "times_double (Fin a) PInf = (if a = 0 then NaN else if 0 < a then PInf else MInf)"
| "times_double (Fin a) MInf = (if a = 0 then NaN else if 0 < a then MInf else PInf)"
| "times_double PInf (Fin b) = (if b = 0 then NaN else if 0 < b then PInf else MInf)"
| "times_double MInf (Fin b) = (if b = 0 then NaN else if 0 < b then MInf else PInf)"
| "times_double PInf PInf = PInf"
| "times_double MInf MInf = PInf"
| "times_double PInf MInf = MInf"
| "times_double MInf PInf = MInf"

fun divide_double :: "double \<Rightarrow> double \<Rightarrow> double" where
  "divide_double NaN y = NaN"
| "divide_double x NaN = NaN"
| "divide_double (Fin a) (Fin b) =
     (if b \<noteq> 0 then Fin (a / b)
      else if a = 0 then NaN else if 0 < a then PInf else MInf)"
| "divide_double (Fin a) y = Fin 0"
| "divide_double PInf (Fin b) = (if 0 \<le> b then PInf else MInf)"
| "divide_double MInf (Fin b) = (if 0 \<le> b then MInf else PInf)"
| "divide_double x y = NaN"

definition inverse_double :: "double \<Rightarrow> double" where
  "inverse_double x = divide (Fin 1) x"

fun less_double :: "double \<Rightarrow> double \<Rightarrow> bool" where
  "less_double NaN y = False"
| "less_double x NaN = False"
| "less_double (Fin a) (Fin b) = (a < b)"
| "less_double x MInf = False"
| "less_double PInf y = False"
| "less_double MInf y = True"
| "less_double (Fin a) PInf = True"

fun less_eq_double :: "double \<Rightarrow> double \<Rightarrow> bool" where
  "less_eq_double NaN y = False"
| "less_eq_double x NaN = False"
| "less_eq_double (Fin a) (Fin b) = (a \<le> b)"
| "less_eq_double MInf y = True"
| "less_eq_double x PInf = True"
| "less_eq_double x MInf = False"
| "less_eq_double PInf y = False"

instance ..

end

text \<open>
  The library functions \<^verbatim>\<open>log\<close> and \<^verbatim>\<open>exp\<close> on the special values:
  \<open>log 0 = -\<infinity>\<close>, the logarithm of a negative number is NaN, \<open>exp (-\<infinity>) = 0\<close>.
\<close>

fun log_d :: "double \<Rightarrow> double" where
  "log_d (Fin a) = (if 0 < a then Fin (ln a) else if a = 0 then MInf else NaN)"
| "log_d PInf = PInf"
| "log_d MInf = NaN"
| "log_d NaN = NaN"

fun exp_d :: "double \<Rightarrow> double" where
  "exp_d (Fin a) = Fin (exp a)"
| "exp_d PInf = PInf"
| "exp_d MInf = Fin 0"
| "exp_d NaN = NaN"

text \<open>The implicit conversion of an \<^verbatim>\<open>int\<close> to \<^verbatim>\<open>double\<close>.\<close>

definition double_of_int :: "int \<Rightarrow> double" where
  "double_of_int i = Fin (of_int i)"


subsection \<open>Laws of the arithmetic\<close>

text \<open>
  In this arithmetic addition is associative and commutative with unit \<open>0\<close>, also on
  the special values, so that a running total is a sum over its index range.
\<close>

lemma zero_double_Fin [simp]: "(0::double) = Fin 0"
  by (simp add: zero_double_def)

lemma one_double_Fin [simp]: "(1::double) = Fin 1"
  by (simp add: one_double_def)

lemma add_assoc_double: "((a::double) + b) + c = a + (b + c)"
  by (cases a; cases b; cases c) simp_all

lemma add_commute_double: "(a::double) + b = b + a"
  by (cases a; cases b) simp_all

lemma add_zero_double [simp]: "Fin 0 + (a::double) = a" "a + Fin 0 = a"
  by (cases a; simp)+

lemma mult_one_double [simp]: "Fin 1 * (a::double) = a" "a * Fin 1 = a"
  by (cases a; simp)+

instance double :: comm_monoid_add
proof
  fix a b c :: double
  show "a + b + c = a + (b + c)" by (rule add_assoc_double)
  show "a + b = b + a" by (rule add_commute_double)
  show "0 + a = a" by simp
qed

lemma minus_Fin [simp]: "Fin a - Fin b = Fin (a - b)"
  by (simp add: minus_double_def)

lemma sum_upto_2: "(\<Sum>g = 0..<(2::nat). h g) = (h 0 + h 1 :: double)"
  by (simp add: numeral_2_eq_2)

lemma all_less_2: "(\<forall>g < (2::nat). P g) = (P 0 \<and> P 1)"
  by (auto simp: numeral_2_eq_2 less_Suc_eq)

section \<open>The arguments of \<^verbatim>\<open>loglikelihood_cpp\<close>\<close>

text \<open>
  An Rcpp matrix has a number of rows, a number of columns and its cells, read as
  \<^verbatim>\<open>M(i, j)\<close> with no bounds check. A \<^verbatim>\<open>NumericVector\<close> is a list of doubles,
  read as \<^verbatim>\<open>v(i)\<close> with no bounds check either. A read out of range is undefined
  behaviour in C++; here \<open>cell\<close> is total and \<open>v ! i\<close> is unspecified out of range, and
  nothing below depends on such a read.
\<close>

record 'a matrix =
  nrow :: nat
  ncol :: nat
  cell :: "nat \<Rightarrow> nat \<Rightarrow> 'a"

type_synonym IntegerMatrix = "int matrix"
type_synonym NumericMatrix = "double matrix"
type_synonym NumericVector = "double list"

section \<open>The forward algorithm\<close>

text \<open>
  The state of the loop over the sites: the two-element vectors
  \<^verbatim>\<open>current_predictive\<close> and \<^verbatim>\<open>current_filter\<close> (entry 0 first) and the
  accumulator \<^verbatim>\<open>loglikelihood_value\<close>.
\<close>

record forward_state =
  current_predictive :: "double \<times> double"
  current_filter :: "double \<times> double"
  loglikelihood_value :: double

text \<open>
  Lines 71 to 75 and 64: the predictive distribution starts as \<open>(1 - r, r)\<close>, the
  filter vector is zero-filled, the accumulator is \<open>0\<close>.
\<close>

definition init_state :: "double \<Rightarrow> forward_state" where
  "init_state r =
     \<lparr>current_predictive = (1 - r, r), current_filter = (0, 0), loglikelihood_value = 0\<rparr>"

text \<open>
  Lines 84 to 87: \<^verbatim>\<open>while ((nstates < maxnstates) && (f(idata,nstates) > 1e-20)) nstates += 1;\<close>
\<close>

function count_nstates :: "NumericMatrix \<Rightarrow> nat \<Rightarrow> nat \<Rightarrow> nat \<Rightarrow> nat" where
  "count_nstates f idata maxnstates nstates =
     (if nstates < maxnstates \<and> cell f idata nstates > Fin (1 / 10 ^ 20)
      then count_nstates f idata maxnstates (nstates + 1)
      else nstates)"
  by pat_completeness auto
termination
  by (relation "measure (\<lambda>(f, idata, maxnstates, nstates). maxnstates - nstates)") auto

declare count_nstates.simps [simp del]

text \<open>Lines 95 to 105: the term \<^verbatim>\<open>incr\<close> of the double sum, for one \<open>(g, gprime)\<close>.\<close>

definition lk0_incr ::
  "NumericMatrix \<Rightarrow> IntegerMatrix \<Rightarrow> double \<Rightarrow> nat \<Rightarrow> nat \<Rightarrow> nat \<Rightarrow> nat \<Rightarrow> double" where
  "lk0_incr f Ys epsilon idata nstates g gprime =
     (let incr = cell f idata g * cell f idata gprime;
          incr = (if cell Ys idata 0 = int g
                  then incr * (1 - double_of_int (int nstates - 1) * epsilon)
                  else incr * epsilon);
          incr = (if cell Ys idata 1 = int gprime
                  then incr * (1 - double_of_int (int nstates - 1) * epsilon)
                  else incr * epsilon)
      in incr)"

text \<open>Lines 90 to 108: the two nested \<^verbatim>\<open>for\<close> loops adding into \<^verbatim>\<open>lk0\<close>.\<close>

definition lk0_loop ::
  "NumericMatrix \<Rightarrow> IntegerMatrix \<Rightarrow> double \<Rightarrow> nat \<Rightarrow> nat \<Rightarrow> double" where
  "lk0_loop f Ys epsilon idata nstates =
     fold (\<lambda>g lk0.
        fold (\<lambda>gprime lk0. lk0 + lk0_incr f Ys epsilon idata nstates g gprime)
          [0..<nstates] lk0)
       [0..<nstates] 0"

text \<open>Lines 114 to 124: the term \<^verbatim>\<open>incr\<close> of the single sum, for one \<open>g\<close>.\<close>

definition lk1_incr ::
  "NumericMatrix \<Rightarrow> IntegerMatrix \<Rightarrow> double \<Rightarrow> nat \<Rightarrow> nat \<Rightarrow> nat \<Rightarrow> double" where
  "lk1_incr f Ys epsilon idata nstates g =
     (let incr = cell f idata g;
          incr = (if cell Ys idata 0 = int g
                  then incr * (1 - double_of_int (int nstates - 1) * epsilon)
                  else incr * epsilon);
          incr = (if cell Ys idata 1 = int g
                  then incr * (1 - double_of_int (int nstates - 1) * epsilon)
                  else incr * epsilon)
      in incr)"

text \<open>Lines 110 to 126: the \<^verbatim>\<open>for\<close> loop adding into \<^verbatim>\<open>lk1\<close>.\<close>

definition lk1_loop ::
  "NumericMatrix \<Rightarrow> IntegerMatrix \<Rightarrow> double \<Rightarrow> nat \<Rightarrow> nat \<Rightarrow> double" where
  "lk1_loop f Ys epsilon idata nstates =
     fold (\<lambda>g lk1. lk1 + lk1_incr f Ys epsilon idata nstates g) [0..<nstates] 0"

text \<open>
  Lines 84 to 126 together: the emission likelihoods \<open>(lk0, lk1)\<close> of site \<open>idata\<close>,
  with \<^verbatim>\<open>maxnstates = f.ncol()\<close>.
\<close>

definition site_emission ::
  "NumericMatrix \<Rightarrow> IntegerMatrix \<Rightarrow> double \<Rightarrow> nat \<Rightarrow> double \<times> double" where
  "site_emission f Ys epsilon idata =
     (let nstates = count_nstates f idata (ncol f) 0
      in (lk0_loop f Ys epsilon idata nstates, lk1_loop f Ys epsilon idata nstates))"

text \<open>
  Lines 83 to 150: the body of the loop over the sites. The test
  \<^verbatim>\<open>idata < ndata-1\<close> is a comparison of C \<^verbatim>\<open>int\<close>s, with \<^verbatim>\<open>ndata = Ys.nrow()\<close>.
\<close>

definition site_update ::
  "double \<Rightarrow> double \<Rightarrow> IntegerMatrix \<Rightarrow> NumericMatrix \<Rightarrow> NumericVector \<Rightarrow> double \<Rightarrow> double \<Rightarrow>
   nat \<Rightarrow> forward_state \<Rightarrow> forward_state" where
  "site_update k r Ys f gendist epsilon rho idata s =
     (let (lk0, lk1) = site_emission f Ys epsilon idata;
          filter0 = fst (current_predictive s) * lk0;
          filter1 = snd (current_predictive s) * lk1;
          l_idata = filter0 + filter1;
          loglik = loglikelihood_value s + log_d l_idata
      in if int idata < int (nrow Ys) - 1
         then
           (let filter0 = filter0 / l_idata;
                filter1 = filter1 / l_idata;
                exp_val = exp_d (- k * rho * (gendist ! idata));
                a01 = r * (1 - exp_val);
                a11 = r + (1 - r) * exp_val;
                predictive1 = filter0 * a01 + filter1 * a11;
                predictive0 = 1 - predictive1
            in \<lparr>current_predictive = (predictive0, predictive1),
                current_filter = (filter0, filter1),
                loglikelihood_value = loglik\<rparr>)
         else \<lparr>current_predictive = current_predictive s,
               current_filter = (filter0, filter1),
               loglikelihood_value = loglik\<rparr>)"

text \<open>
  Lines 59 to 154: the guard on \<open>r\<close> and \<open>k\<close>, then the loop over
  \<^verbatim>\<open>idata = 0, ..., ndata - 1\<close>, then the accumulator.
\<close>

definition loglikelihood_cpp ::
  "double \<Rightarrow> double \<Rightarrow> IntegerMatrix \<Rightarrow> NumericMatrix \<Rightarrow> NumericVector \<Rightarrow> double \<Rightarrow> double \<Rightarrow>
   double" where
  "loglikelihood_cpp k r Ys f gendist epsilon rho =
     (if r < 0 \<or> r > 1 \<or> k < 0 then log_d 0
      else loglikelihood_value
             (fold (site_update k r Ys f gendist epsilon rho) [0..<nrow Ys] (init_state r)))"

subsection \<open>The loop, site by site\<close>

text \<open>The state of the loop when it reaches site \<open>t\<close>, after the sites before \<open>t\<close>.\<close>

definition state_at ::
  "double \<Rightarrow> double \<Rightarrow> IntegerMatrix \<Rightarrow> NumericMatrix \<Rightarrow> NumericVector \<Rightarrow> double \<Rightarrow> double \<Rightarrow>
   nat \<Rightarrow> forward_state" where
  "state_at k r Ys f gendist epsilon rho t =
     fold (site_update k r Ys f gendist epsilon rho) [0..<t] (init_state r)"

text \<open>
  The unnormalised filter \<open>(u0, u1)\<close> of lines 129 and 130 at site \<open>t\<close> and the marginal
  likelihood \<^verbatim>\<open>l_idata\<close> of line 132.
\<close>

definition unnormalised_filter_at ::
  "double \<Rightarrow> double \<Rightarrow> IntegerMatrix \<Rightarrow> NumericMatrix \<Rightarrow> NumericVector \<Rightarrow> double \<Rightarrow> double \<Rightarrow>
   nat \<Rightarrow> double \<times> double" where
  "unnormalised_filter_at k r Ys f gendist epsilon rho t =
     (let s = state_at k r Ys f gendist epsilon rho t
      in (fst (current_predictive s) * fst (site_emission f Ys epsilon t),
          snd (current_predictive s) * snd (site_emission f Ys epsilon t)))"

definition l_idata_at ::
  "double \<Rightarrow> double \<Rightarrow> IntegerMatrix \<Rightarrow> NumericMatrix \<Rightarrow> NumericVector \<Rightarrow> double \<Rightarrow> double \<Rightarrow>
   nat \<Rightarrow> double" where
  "l_idata_at k r Ys f gendist epsilon rho t =
     fst (unnormalised_filter_at k r Ys f gendist epsilon rho t) +
     snd (unnormalised_filter_at k r Ys f gendist epsilon rho t)"

section \<open>The emission likelihoods as the specification words them\<close>

text \<open>
  The number of active alleles of site \<open>t\<close>: the count of the leading entries of the
  frequency row \<open>f_t\<close> that strictly exceed \<open>1e-20\<close>.
\<close>

definition nstates_spec :: "NumericMatrix \<Rightarrow> nat \<Rightarrow> nat" where
  "nstates_spec f t =
     length (takeWhile (\<lambda>x. x > Fin (1 / 10 ^ 20)) (map (cell f t) [0..<ncol f]))"

text \<open>
  The probability \<open>m(y, g)\<close> of observing \<open>y\<close> when the true allele is \<open>g\<close>:
  \<open>1 - (nstates - 1) * epsilon\<close> if \<open>y = g\<close>, and \<open>epsilon\<close> otherwise.
\<close>

definition obs_prob :: "nat \<Rightarrow> double \<Rightarrow> int \<Rightarrow> nat \<Rightarrow> double" where
  "obs_prob nstates epsilon y g =
     (if y = int g then 1 - double_of_int (int nstates - 1) * epsilon else epsilon)"

definition lk1_spec :: "NumericMatrix \<Rightarrow> IntegerMatrix \<Rightarrow> double \<Rightarrow> nat \<Rightarrow> double" where
  "lk1_spec f Ys epsilon t =
     (let n = nstates_spec f t
      in \<Sum>g = 0..<n. cell f t g * obs_prob n epsilon (cell Ys t 0) g *
                         obs_prob n epsilon (cell Ys t 1) g)"

definition lk0_spec :: "NumericMatrix \<Rightarrow> IntegerMatrix \<Rightarrow> double \<Rightarrow> nat \<Rightarrow> double" where
  "lk0_spec f Ys epsilon t =
     (let n = nstates_spec f t
      in \<Sum>g = 0..<n. \<Sum>g' = 0..<n.
           cell f t g * cell f t g' * obs_prob n epsilon (cell Ys t 0) g *
           obs_prob n epsilon (cell Ys t 1) g')"

section \<open>Concrete inputs\<close>

text \<open>An observation matrix with no site, and a frequency matrix with one allele class.\<close>

definition no_sites :: IntegerMatrix where
  "no_sites = \<lparr>nrow = 0, ncol = 2, cell = (\<lambda>i j. 0)\<rparr>"

definition one_allele :: NumericMatrix where
  "one_allele = \<lparr>nrow = 0, ncol = 1, cell = (\<lambda>i j. Fin 1)\<rparr>"

text \<open>Two allele classes of frequency \<open>0.5\<close> each, at every one of \<open>n\<close> sites.\<close>

definition half_half :: "nat \<Rightarrow> NumericMatrix" where
  "half_half n = \<lparr>nrow = n, ncol = 2, cell = (\<lambda>i j. Fin (1 / 2))\<rparr>"

text \<open>
  Observations: one site where the two individuals agree, \<open>(0, 0)\<close>; one site
  where they differ, \<open>(0, 1)\<close>; that site followed
  by a site where they agree, \<open>(0, 0)\<close>; and one site whose first observation is R's
  missing integer \<^verbatim>\<open>NA_integer_\<close>.
\<close>

definition one_concordant :: IntegerMatrix where
  "one_concordant = \<lparr>nrow = 1, ncol = 2, cell = (\<lambda>i j. 0)\<rparr>"

definition one_discordant :: IntegerMatrix where
  "one_discordant = \<lparr>nrow = 1, ncol = 2, cell = (\<lambda>i j. if j = 1 then 1 else 0)\<rparr>"

definition discordant_then_concordant :: IntegerMatrix where
  "discordant_then_concordant =
     \<lparr>nrow = 2, ncol = 2, cell = (\<lambda>i j. if i = 0 \<and> j = 1 then 1 else 0)\<rparr>"

definition missing_first :: IntegerMatrix where
  "missing_first = \<lparr>nrow = 1, ncol = 2, cell = (\<lambda>i j. if j = 0 then - 2147483648 else 0)\<rparr>"

section \<open>The loop over the sites\<close>

lemma state_at_0 [simp]: "state_at k r Ys f gendist epsilon rho 0 = init_state r"
  by (simp add: state_at_def)

lemma state_at_Suc:
  "state_at k r Ys f gendist epsilon rho (Suc t) =
     site_update k r Ys f gendist epsilon rho t (state_at k r Ys f gendist epsilon rho t)"
  by (simp add: state_at_def)

lemma loglikelihood_cpp_feasible:
  "\<not> (r < 0 \<or> r > 1 \<or> k < 0) \<Longrightarrow>
   loglikelihood_cpp k r Ys f gendist epsilon rho =
     loglikelihood_value (state_at k r Ys f gendist epsilon rho (nrow Ys))"
  by (simp add: loglikelihood_cpp_def state_at_def)

text \<open>One iteration, in terms of the unnormalised filter and the marginal likelihood.\<close>

lemma site_update_eq:
  "site_update k r Ys f gendist epsilon rho t (state_at k r Ys f gendist epsilon rho t) =
     (let u = unnormalised_filter_at k r Ys f gendist epsilon rho t;
          l = l_idata_at k r Ys f gendist epsilon rho t;
          s = state_at k r Ys f gendist epsilon rho t;
          loglik = loglikelihood_value s + log_d l
      in if int t < int (nrow Ys) - 1
         then
           (let filter0 = fst u / l;
                filter1 = snd u / l;
                exp_val = exp_d (- k * rho * (gendist ! t));
                a01 = r * (1 - exp_val);
                a11 = r + (1 - r) * exp_val;
                predictive1 = filter0 * a01 + filter1 * a11
            in \<lparr>current_predictive = (1 - predictive1, predictive1),
                current_filter = (filter0, filter1),
                loglikelihood_value = loglik\<rparr>)
         else \<lparr>current_predictive = current_predictive s,
               current_filter = u,
               loglikelihood_value = loglik\<rparr>)"
  by (simp add: site_update_def l_idata_at_def unnormalised_filter_at_def Let_def
      split: prod.splits)

lemma loglikelihood_value_Suc:
  "loglikelihood_value (state_at k r Ys f gendist epsilon rho (Suc t)) =
     loglikelihood_value (state_at k r Ys f gendist epsilon rho t) +
     log_d (l_idata_at k r Ys f gendist epsilon rho t)"
  by (simp add: state_at_Suc site_update_eq Let_def)

lemma loglikelihood_value_sum:
  "loglikelihood_value (state_at k r Ys f gendist epsilon rho t) =
     (\<Sum>i = 0..<t. log_d (l_idata_at k r Ys f gendist epsilon rho i))"
  by (induction t) (simp_all add: loglikelihood_value_Suc init_state_def)

section \<open>The emission likelihoods\<close>

text \<open>The \<^verbatim>\<open>while\<close> loop counts the leading entries above the threshold.\<close>

lemma count_nstates_takeWhile:
  "nstates \<le> maxnstates \<Longrightarrow>
   count_nstates f idata maxnstates nstates =
     nstates + length (takeWhile (\<lambda>x. x > Fin (1 / 10 ^ 20))
                        (map (cell f idata) [nstates..<maxnstates]))"
proof (induction f idata maxnstates nstates rule: count_nstates.induct)
  case (1 f idata maxnstates nstates)
  show ?case
  proof (cases "nstates < maxnstates")
    case True
    then have upt: "[nstates..<maxnstates] = nstates # [Suc nstates..<maxnstates]"
      by (simp add: upt_conv_Cons)
    show ?thesis
    proof (cases "cell f idata nstates > Fin (1 / 10 ^ 20)")
      case above: True
      with True "1.IH" have
        "count_nstates f idata maxnstates (nstates + 1) =
           nstates + 1 + length (takeWhile (\<lambda>x. x > Fin (1 / 10 ^ 20))
                                  (map (cell f idata) [nstates + 1..<maxnstates]))"
        by simp
      with True above upt show ?thesis
        by (subst count_nstates.simps) simp
    next
      case False
      with True upt show ?thesis
        by (subst count_nstates.simps) simp
    qed
  next
    case False
    with "1.prems" show ?thesis
      by (subst count_nstates.simps) simp
  qed
qed

lemma count_nstates_spec: "count_nstates f t (ncol f) 0 = nstates_spec f t"
  by (simp add: count_nstates_takeWhile nstates_spec_def)

text \<open>A \<^verbatim>\<open>for\<close> loop that adds a term per index computes the sum of the terms.\<close>

lemma fold_add_sum_list:
  "fold (\<lambda>g (acc::double). acc + h g) xs a = a + sum_list (map h xs)"
  by (induction xs arbitrary: a) (simp_all add: add.assoc)

lemma fold_add_sum:
  "fold (\<lambda>g (acc::double). acc + h g) [0..<n] a = a + (\<Sum>g = 0..<n. h g)"
  by (simp add: fold_add_sum_list interv_sum_list_conv_sum_set_nat)

lemma fold_fold_add_sum:
  "fold (\<lambda>g (acc::double). fold (\<lambda>g' acc. acc + h g g') [0..<m] acc) [0..<n] a =
     a + (\<Sum>g = 0..<n. \<Sum>g' = 0..<m. h g g')"
proof -
  have "(\<lambda>g (acc::double). fold (\<lambda>g' acc. acc + h g g') [0..<m] acc) =
        (\<lambda>g acc. acc + (\<Sum>g' = 0..<m. h g g'))"
    by (simp add: fold_add_sum)
  then show ?thesis
    by (simp add: fold_add_sum)
qed

lemma lk1_incr_obs_prob:
  "lk1_incr f Ys epsilon t n g =
     cell f t g * obs_prob n epsilon (cell Ys t 0) g * obs_prob n epsilon (cell Ys t 1) g"
  by (simp add: lk1_incr_def obs_prob_def Let_def)

lemma lk0_incr_obs_prob:
  "lk0_incr f Ys epsilon t n g g' =
     cell f t g * cell f t g' * obs_prob n epsilon (cell Ys t 0) g *
     obs_prob n epsilon (cell Ys t 1) g'"
  by (simp add: lk0_incr_def obs_prob_def Let_def)

lemma site_emission_spec:
  "site_emission f Ys epsilon t = (lk0_spec f Ys epsilon t, lk1_spec f Ys epsilon t)"
  unfolding site_emission_def lk0_loop_def lk1_loop_def lk0_spec_def lk1_spec_def Let_def
    count_nstates_spec
  by (simp only: fold_add_sum fold_fold_add_sum lk1_incr_obs_prob lk0_incr_obs_prob add_0_left)

text \<open>The emission likelihoods of the concrete frequency matrix.\<close>

lemma nstates_half_half [simp]: "nstates_spec (half_half n) t = 2"
  by (simp add: nstates_spec_def half_half_def upt_conv_Cons numeral_2_eq_2)

lemma cell_half_half [simp]: "cell (half_half n) t g = Fin (1 / 2)"
  by (simp add: half_half_def)

lemma site_emission_half_half:
  "site_emission (half_half n) Ys (Fin e) t =
     (Fin (1 / 4) * obs_prob 2 (Fin e) (cell Ys t 0) 0 * obs_prob 2 (Fin e) (cell Ys t 1) 0 +
      Fin (1 / 4) * obs_prob 2 (Fin e) (cell Ys t 0) 0 * obs_prob 2 (Fin e) (cell Ys t 1) 1 +
      (Fin (1 / 4) * obs_prob 2 (Fin e) (cell Ys t 0) 1 * obs_prob 2 (Fin e) (cell Ys t 1) 0 +
       Fin (1 / 4) * obs_prob 2 (Fin e) (cell Ys t 0) 1 * obs_prob 2 (Fin e) (cell Ys t 1) 1),
      Fin (1 / 2) * obs_prob 2 (Fin e) (cell Ys t 0) 0 * obs_prob 2 (Fin e) (cell Ys t 1) 0 +
      Fin (1 / 2) * obs_prob 2 (Fin e) (cell Ys t 0) 1 * obs_prob 2 (Fin e) (cell Ys t 1) 1)"
  by (simp add: site_emission_spec lk0_spec_def lk1_spec_def sum_upto_2)

lemma obs_prob_2 [simp]:
  "obs_prob 2 (Fin e) y g = (if y = int g then Fin (1 - e) else Fin e)"
  by (simp add: obs_prob_def double_of_int_def)

text \<open>
  C1: the site emission evaluator returns the pair \<open>(lk0, lk1)\<close> where, with \<open>nstates_t\<close>
  the count of the leading entries of \<open>f_t\<close> that strictly exceed \<open>1e-20\<close>, \<open>lk1\<close> is
  the sum over \<open>g\<close> in \<open>[0, nstates_t)\<close> of \<open>f_t[g] * m(y0_t, g) * m(y1_t, g)\<close> and
  \<open>lk0\<close> is the sum over \<open>(g, g')\<close> of \<open>f_t[g] * f_t[g'] * m(y0_t, g) * m(y1_t, g')\<close>.
\<close>

theorem site_emission_sums:
  "site_emission f Ys epsilon t =
     (\<Sum>g = 0..<nstates_spec f t. \<Sum>g' = 0..<nstates_spec f t.
         cell f t g * cell f t g' * obs_prob (nstates_spec f t) epsilon (cell Ys t 0) g *
         obs_prob (nstates_spec f t) epsilon (cell Ys t 1) g',
      \<Sum>g = 0..<nstates_spec f t.
         cell f t g * obs_prob (nstates_spec f t) epsilon (cell Ys t 0) g *
         obs_prob (nstates_spec f t) epsilon (cell Ys t 1) g)"
  by (simp add: site_emission_spec lk0_spec_def lk1_spec_def Let_def)

theorem site_emission_sums_witness:
  "site_emission (half_half 2) discordant_then_concordant (Fin (1 / 1000)) 0 =
     (Fin (1 / 4), Fin (999 / 1000000)) \<and>
   site_emission (half_half 2) discordant_then_concordant (Fin (1 / 1000)) 1 =
     (Fin (1 / 4), Fin (499001 / 1000000))"
  using site_emission_sums [of "half_half 2" discordant_then_concordant "Fin (1 / 1000)" 0]
    site_emission_sums [of "half_half 2" discordant_then_concordant "Fin (1 / 1000)" 1]
  by (simp add: sum_upto_2 discordant_then_concordant_def)

text \<open>
  C7: if the observed value \<open>Ys(t,0)\<close> lies outside \<open>[0, nstates_t)\<close>, every term of
  both emission sums takes \<open>epsilon\<close> as the factor of that observation, and so do the
  sums; the same holds for \<open>Ys(t,1)\<close>. The exact-match factor
  \<open>1 - (nstates_t - 1) * epsilon\<close> is used for no term of that observation.
\<close>

theorem out_of_range_observation_uses_epsilon:
  "(cell Ys t 0 < 0 \<or> int (nstates_spec f t) \<le> cell Ys t 0 \<longrightarrow>
      (\<forall>g < nstates_spec f t. \<forall>g' < nstates_spec f t.
         lk0_incr f Ys epsilon t (nstates_spec f t) g g' =
           cell f t g * cell f t g' * epsilon *
           obs_prob (nstates_spec f t) epsilon (cell Ys t 1) g' \<and>
         lk1_incr f Ys epsilon t (nstates_spec f t) g =
           cell f t g * epsilon * obs_prob (nstates_spec f t) epsilon (cell Ys t 1) g) \<and>
      site_emission f Ys epsilon t =
        (\<Sum>g = 0..<nstates_spec f t. \<Sum>g' = 0..<nstates_spec f t.
            cell f t g * cell f t g' * epsilon *
            obs_prob (nstates_spec f t) epsilon (cell Ys t 1) g',
         \<Sum>g = 0..<nstates_spec f t.
            cell f t g * epsilon * obs_prob (nstates_spec f t) epsilon (cell Ys t 1) g)) \<and>
   (cell Ys t 1 < 0 \<or> int (nstates_spec f t) \<le> cell Ys t 1 \<longrightarrow>
      (\<forall>g < nstates_spec f t. \<forall>g' < nstates_spec f t.
         lk0_incr f Ys epsilon t (nstates_spec f t) g g' =
           cell f t g * cell f t g' * obs_prob (nstates_spec f t) epsilon (cell Ys t 0) g *
           epsilon \<and>
         lk1_incr f Ys epsilon t (nstates_spec f t) g' =
           cell f t g' * obs_prob (nstates_spec f t) epsilon (cell Ys t 0) g' * epsilon) \<and>
      site_emission f Ys epsilon t =
        (\<Sum>g = 0..<nstates_spec f t. \<Sum>g' = 0..<nstates_spec f t.
            cell f t g * cell f t g' * obs_prob (nstates_spec f t) epsilon (cell Ys t 0) g *
            epsilon,
         \<Sum>g = 0..<nstates_spec f t.
            cell f t g * obs_prob (nstates_spec f t) epsilon (cell Ys t 0) g * epsilon))"
proof -
  let ?n = "nstates_spec f t"
  have miss: "obs_prob ?n epsilon y g = epsilon" if "y < 0 \<or> int ?n \<le> y" and "g < ?n" for y g
    using that by (auto simp: obs_prob_def)
  show ?thesis
    by (auto simp: site_emission_spec lk0_spec_def lk1_spec_def Let_def lk0_incr_obs_prob
        lk1_incr_obs_prob miss intro!: sum.cong)
qed

theorem out_of_range_observation_uses_epsilon_witness:
  "cell missing_first 0 0 < 0 \<and>
   lk1_incr (half_half 1) missing_first (Fin (1 / 1000)) 0 2 0 =
     Fin (1 / 2) * Fin (1 / 1000) * Fin (999 / 1000) \<and>
   lk1_incr (half_half 1) missing_first (Fin (1 / 1000)) 0 2 1 =
     Fin (1 / 2) * Fin (1 / 1000) * Fin (1 / 1000) \<and>
   site_emission (half_half 1) missing_first (Fin (1 / 1000)) 0 =
     (Fin (1 / 2000), Fin (1 / 2000))"
proof -
  have out: "cell missing_first 0 0 < 0"
    by (simp add: missing_first_def)
  have y1: "cell missing_first 0 (Suc 0) = 0"
    by (simp add: missing_first_def)
  show ?thesis
    using out out_of_range_observation_uses_epsilon
      [of missing_first 0 "half_half 1" "Fin (1 / 1000)"]
    by (simp add: sum_upto_2 y1 all_less_2)
qed

section \<open>The recursion over the sites\<close>

text \<open>
  C3: the predictive distribution used at the first site is exactly \<open>(1 - r, r)\<close>: the
  marginal likelihood of site 0 is \<open>(1 - r) * lk0 + r * lk1\<close>, with no transition step
  before it, and for a single site and parameters that pass the guard the function
  returns the logarithm of that value.
\<close>

theorem initial_predictive:
  "current_predictive (state_at k r Ys f gendist epsilon rho 0) = (1 - r, r) \<and>
   l_idata_at k r Ys f gendist epsilon rho 0 =
     (1 - r) * fst (site_emission f Ys epsilon 0) + r * snd (site_emission f Ys epsilon 0) \<and>
   (\<not> (r < 0 \<or> r > 1 \<or> k < 0) \<and> nrow Ys = 1 \<longrightarrow>
      loglikelihood_cpp k r Ys f gendist epsilon rho =
        log_d ((1 - r) * fst (site_emission f Ys epsilon 0) +
               r * snd (site_emission f Ys epsilon 0)))"
  by (simp add: loglikelihood_cpp_feasible init_state_def l_idata_at_def
      unnormalised_filter_at_def Let_def loglikelihood_value_Suc [of _ _ _ _ _ _ _ 0, simplified])

theorem initial_predictive_witness:
  "\<not> (Fin (3 / 10) < (0::double) \<or> Fin (3 / 10) > (1::double) \<or> Fin 1 < (0::double)) \<and>
   nrow one_concordant = 1 \<and>
   current_predictive
     (state_at (Fin 1) (Fin (3 / 10)) one_concordant (half_half 1) [Fin 0] (Fin 0) (Fin 1) 0) =
     (Fin (7 / 10), Fin (3 / 10)) \<and>
   l_idata_at (Fin 1) (Fin (3 / 10)) one_concordant (half_half 1) [Fin 0] (Fin 0) (Fin 1) 0 =
     Fin (13 / 40) \<and>
   loglikelihood_cpp (Fin 1) (Fin (3 / 10)) one_concordant (half_half 1) [Fin 0] (Fin 0) (Fin 1) =
     Fin (ln (13 / 40))"
proof -
  have rows: "nrow one_concordant = 1"
    by (simp add: one_concordant_def)
  have em: "site_emission (half_half n) one_concordant (Fin 0) 0 = (Fin (1 / 4), Fin (1 / 2))"
    for n
    by (simp add: site_emission_half_half one_concordant_def)
  show ?thesis
    using rows
      initial_predictive [of "Fin 1" "Fin (3 / 10)" one_concordant "half_half 1" "[Fin 0]"
        "Fin 0" "Fin 1"]
    by (simp add: em)
qed

text \<open>
  C2: for every site \<open>t\<close> with \<open>t < ndata - 1\<close>, the filter kept after site \<open>t\<close> is the
  normalised one, \<open>(u0 / L_t, u1 / L_t)\<close>, and the predictive distribution for site
  \<open>t + 1\<close> is computed from it as \<open>p1' = filter0 * a01 + filter1 * a11\<close> and
  \<open>p0' = 1 - p1'\<close>, with \<open>decay = exp (- k * rho * gendist_t)\<close>,
  \<open>a01 = r * (1 - decay)\<close> and \<open>a11 = r + (1 - r) * decay\<close>.
\<close>

theorem chain_prediction_step:
  assumes "int t < int (nrow Ys) - 1"
  shows "current_filter (state_at k r Ys f gendist epsilon rho (Suc t)) =
           (fst (unnormalised_filter_at k r Ys f gendist epsilon rho t) /
              l_idata_at k r Ys f gendist epsilon rho t,
            snd (unnormalised_filter_at k r Ys f gendist epsilon rho t) /
              l_idata_at k r Ys f gendist epsilon rho t) \<and>
         snd (current_predictive (state_at k r Ys f gendist epsilon rho (Suc t))) =
           fst (current_filter (state_at k r Ys f gendist epsilon rho (Suc t))) *
             (r * (1 - exp_d (- k * rho * (gendist ! t)))) +
           snd (current_filter (state_at k r Ys f gendist epsilon rho (Suc t))) *
             (r + (1 - r) * exp_d (- k * rho * (gendist ! t))) \<and>
         fst (current_predictive (state_at k r Ys f gendist epsilon rho (Suc t))) =
           1 - snd (current_predictive (state_at k r Ys f gendist epsilon rho (Suc t)))"
  using assms by (simp add: state_at_Suc site_update_eq Let_def)

theorem chain_prediction_step_witness:
  "int 0 < int (nrow discordant_then_concordant) - 1 \<and>
   current_filter
     (state_at (Fin 1) (Fin (1 / 2)) discordant_then_concordant (half_half 2)
        [Fin (1 / 100), Fin 0] (Fin (1 / 1000)) (Fin 1) (Suc 0)) =
     (Fin (250000 / 250999), Fin (999 / 250999)) \<and>
   snd (current_predictive
     (state_at (Fin 1) (Fin (1 / 2)) discordant_then_concordant (half_half 2)
        [Fin (1 / 100), Fin 0] (Fin (1 / 1000)) (Fin 1) (Suc 0))) =
     Fin (250000 / 250999) * (Fin (1 / 2) * (1 - Fin (exp (- (1 / 100))))) +
     Fin (999 / 250999) * (Fin (1 / 2) + Fin (1 / 2) * Fin (exp (- (1 / 100)))) \<and>
   fst (current_predictive
     (state_at (Fin 1) (Fin (1 / 2)) discordant_then_concordant (half_half 2)
        [Fin (1 / 100), Fin 0] (Fin (1 / 1000)) (Fin 1) (Suc 0))) =
     1 - snd (current_predictive
       (state_at (Fin 1) (Fin (1 / 2)) discordant_then_concordant (half_half 2)
          [Fin (1 / 100), Fin 0] (Fin (1 / 1000)) (Fin 1) (Suc 0)))"
proof -
  have rows: "int 0 < int (nrow discordant_then_concordant) - 1"
    by (simp add: discordant_then_concordant_def)
  have em: "site_emission (half_half 2) discordant_then_concordant (Fin (1 / 1000)) 0 =
      (Fin (1 / 4), Fin (999 / 1000000))"
    by (simp add: site_emission_half_half discordant_then_concordant_def)
  have u: "unnormalised_filter_at (Fin 1) (Fin (1 / 2)) discordant_then_concordant (half_half 2)
      [Fin (1 / 100), Fin 0] (Fin (1 / 1000)) (Fin 1) 0 = (Fin (1 / 8), Fin (999 / 2000000))"
    by (simp add: unnormalised_filter_at_def init_state_def em)
  have l: "l_idata_at (Fin 1) (Fin (1 / 2)) discordant_then_concordant (half_half 2)
      [Fin (1 / 100), Fin 0] (Fin (1 / 1000)) (Fin 1) 0 = Fin (250999 / 2000000)"
    by (simp add: l_idata_at_def u)
  from chain_prediction_step [OF rows, of "Fin 1" "Fin (1 / 2)" "half_half 2"
      "[Fin (1 / 100), Fin 0]" "Fin (1 / 1000)" "Fin 1"]
  show ?thesis
    using rows by (simp add: u l)
qed

text \<open>
  C9: on the final site the normalisation of the filter and the chain prediction are
  both skipped: the filter left after the last site is the unnormalised \<open>(u0, u1)\<close>,
  never divided by \<open>L_t\<close> (also when \<open>L_t = 0\<close>), the predictive distribution is the
  one the site started with, and the value returned is the accumulated sum of
  \<open>log L_t\<close> over all the sites.
\<close>

theorem final_site_skips_normalisation:
  assumes "\<not> (r < 0 \<or> r > 1 \<or> k < 0)" and "nrow Ys = Suc n"
  shows "current_filter (state_at k r Ys f gendist epsilon rho (nrow Ys)) =
           unnormalised_filter_at k r Ys f gendist epsilon rho n \<and>
         current_predictive (state_at k r Ys f gendist epsilon rho (nrow Ys)) =
           current_predictive (state_at k r Ys f gendist epsilon rho n) \<and>
         loglikelihood_cpp k r Ys f gendist epsilon rho =
           loglikelihood_value (state_at k r Ys f gendist epsilon rho n) +
           log_d (l_idata_at k r Ys f gendist epsilon rho n) \<and>
         loglikelihood_cpp k r Ys f gendist epsilon rho =
           (\<Sum>t = 0..<nrow Ys. log_d (l_idata_at k r Ys f gendist epsilon rho t))"
  using assms
  by (simp add: loglikelihood_cpp_feasible loglikelihood_value_sum [symmetric]
      loglikelihood_value_Suc state_at_Suc site_update_eq Let_def)

theorem final_site_skips_normalisation_witness:
  "\<not> (Fin 1 < (0::double) \<or> Fin 1 > (1::double) \<or> Fin 1 < (0::double)) \<and>
   nrow one_discordant = Suc 0 \<and>
   l_idata_at (Fin 1) (Fin 1) one_discordant (half_half 1) [Fin 0] (Fin 0) (Fin 1) 0 = Fin 0 \<and>
   current_filter
     (state_at (Fin 1) (Fin 1) one_discordant (half_half 1) [Fin 0] (Fin 0) (Fin 1)
        (nrow one_discordant)) = (Fin 0, Fin 0) \<and>
   loglikelihood_cpp (Fin 1) (Fin 1) one_discordant (half_half 1) [Fin 0] (Fin 0) (Fin 1) = MInf"
proof -
  have guard: "\<not> (Fin 1 < (0::double) \<or> Fin 1 > (1::double) \<or> Fin 1 < (0::double))"
    by simp
  have rows: "nrow one_discordant = Suc 0"
    by (simp add: one_discordant_def)
  have em: "site_emission (half_half n) one_discordant (Fin 0) 0 = (Fin (1 / 4), Fin 0)"
    for n
    by (simp add: site_emission_half_half one_discordant_def)
  have u: "unnormalised_filter_at (Fin 1) (Fin 1) one_discordant (half_half n) [Fin 0] (Fin 0)
      (Fin 1) 0 = (Fin 0, Fin 0)" for n
    by (simp add: unnormalised_filter_at_def init_state_def em)
  have l: "l_idata_at (Fin 1) (Fin 1) one_discordant (half_half n) [Fin 0] (Fin 0) (Fin 1) 0 =
      Fin 0" for n
    by (simp add: l_idata_at_def u)
  from final_site_skips_normalisation [OF guard rows, of "half_half 1" "[Fin 0]" "Fin 0" "Fin 1"]
  show ?thesis
    using guard rows by (simp add: u l init_state_def)
qed

section \<open>The guard on the parameters\<close>

text \<open>
  C4: whenever \<open>r < 0\<close> or \<open>r > 1\<close> or \<open>k < 0\<close>, the function returns negative
  infinity, whatever the data \<open>Ys\<close>, \<open>f\<close>, \<open>gendist\<close>, \<open>epsilon\<close> and \<open>rho\<close> are:
  its value is \<^verbatim>\<open>log(0.)\<close> and does not depend on the loop over the sites.
\<close>

theorem infeasible_returns_minus_infinity:
  "r < 0 \<or> r > 1 \<or> k < 0 \<Longrightarrow> loglikelihood_cpp k r Ys f gendist epsilon rho = MInf"
  by (simp add: loglikelihood_cpp_def)

theorem infeasible_returns_minus_infinity_witness:
  "Fin (- 1 / 10) < (0::double) \<and>
   loglikelihood_cpp (Fin 1) (Fin (- 1 / 10)) no_sites one_allele [] (Fin (1 / 1000)) (Fin 1) = MInf \<and>
   Fin (- 1) < (0::double) \<and>
   loglikelihood_cpp (Fin (- 1)) (Fin (1 / 2)) no_sites one_allele [] (Fin (1 / 1000)) (Fin 1) = MInf"
proof -
  have r: "Fin (- 1 / 10) < (0::double)" by simp
  have k: "Fin (- 1) < (0::double)" by simp
  show ?thesis
    using r k
      infeasible_returns_minus_infinity [of "Fin (- 1 / 10)" "Fin 1" no_sites one_allele "[]"
        "Fin (1 / 1000)" "Fin 1"]
      infeasible_returns_minus_infinity [of "Fin (1 / 2)" "Fin (- 1)" no_sites one_allele "[]"
        "Fin (1 / 1000)" "Fin 1"]
    by blast
qed

section \<open>The empty sequence\<close>

text \<open>
  C10: when the guard lets \<open>k\<close> and \<open>r\<close> through (in particular for \<open>r\<close> in \<open>[0,1]\<close>
  and \<open>k \<ge> 0\<close>) and \<open>Ys\<close> has no row, the function returns exactly \<open>0\<close> and the loop
  processes no site: the state stays the initial one.
\<close>

theorem empty_sequence_returns_zero:
  assumes "\<not> (r < 0 \<or> r > 1 \<or> k < 0)" and "nrow Ys = 0"
  shows "loglikelihood_cpp k r Ys f gendist epsilon rho = 0 \<and>
         fold (site_update k r Ys f gendist epsilon rho) [0..<nrow Ys] (init_state r) = init_state r"
  using assms by (simp add: loglikelihood_cpp_def init_state_def)

theorem empty_sequence_returns_zero_witness:
  "\<not> (Fin (1 / 2) < (0::double)) \<and> \<not> (Fin (1 / 2) > (1::double)) \<and> \<not> (Fin 1 < (0::double)) \<and>
   nrow no_sites = 0 \<and>
   loglikelihood_cpp (Fin 1) (Fin (1 / 2)) no_sites one_allele [] (Fin (1 / 1000)) (Fin 1) = 0"
  using empty_sequence_returns_zero [of "Fin (1 / 2)" "Fin 1" no_sites one_allele "[]"
      "Fin (1 / 1000)" "Fin 1"]
  by (simp add: no_sites_def)

section \<open>A site of marginal likelihood zero\<close>



lemma nrow_discordant_then_concordant [simp]: "nrow discordant_then_concordant = 2"
  by (simp add: discordant_then_concordant_def)




















end
